theory Spec2Isabelle
  imports Main "HOL-Library.Char_ord"
begin

section \<open>XCM type generation, relay chain to system parachain\<close>

text \<open>
  The embedding of \<^verbatim>\<open>src/createXcmTypes/RelayToSystem.ts\<close>. A JavaScript object
  literal becomes a record or a datatype value; a key that one branch writes and the
  other leaves out becomes an \<open>option\<close> field (\<open>None\<close>: the key is absent); a value
  that may be \<^verbatim>\<open>undefined\<close> becomes an \<open>option\<close> too.
\<close>

subsection \<open>Data\<close>

text \<open>
  Modelled from the spec: the declarations of \<^verbatim>\<open>XcmDestBenificiary\<close>,
  \<^verbatim>\<open>UnionXcmMultiAssets\<close>, \<^verbatim>\<open>XcmMultiAsset\<close>, \<^verbatim>\<open>XcmWeight\<close> and
  \<^verbatim>\<open>CreateWeightLimitOpts\<close> that \<^verbatim>\<open>RelayToSystem.ts\<close> imports are not among the
  sources. The version tags are the spec's enum \<open>{V2, V3, V4}\<close>; the bodies are read off
  the object literals the builders return.
\<close>

datatype XcmVersion = V2 | V3 | V4

text \<open>The object \<^verbatim>\<open>{ V2: body }\<close> or \<^verbatim>\<open>{ V3: body }\<close>: one key, the version tag.\<close>

datatype 'a Versioned = Versioned (version: XcmVersion) (payload: 'a)

record AccountId32 =
  network :: "string option"
  id_account :: string

datatype Junction = AccountId32 AccountId32 | Parachain string

datatype Junctions = Here string | X1 Junction

record MultiLocation =
  parents :: int
  interior :: Junctions

datatype Fungibility = Fungible "string option"

datatype AssetId = Concrete MultiLocation

record XcmMultiAsset =
  fun_asset :: Fungibility
  id_asset :: AssetId

type_synonym XcmDestBenificiary = "MultiLocation Versioned"

type_synonym UnionXcmMultiAssets = "XcmMultiAsset list Versioned"

text \<open>
  Modelled from the spec: the components of a weight limit are "numeric" in the spec,
  while \<^verbatim>\<open>types.ts\<close> has \<^verbatim>\<open>Limited: string\<close>; a component is therefore a JavaScript
  primitive, a number or a string. \<open>truthy\<close> is the test that \<^verbatim>\<open>&&\<close> and
  \<^verbatim>\<open>? :\<close> apply to it: \<^verbatim>\<open>0\<close> and \<^verbatim>\<open>''\<close> are falsy.
\<close>

datatype JsPrim = JsNumber int | JsString string

fun truthy :: "JsPrim \<Rightarrow> bool" where
  "truthy (JsNumber n) = (n \<noteq> 0)"
| "truthy (JsString s) = (s \<noteq> [])"

text \<open>A missing key reads as \<^verbatim>\<open>undefined\<close>, which is falsy.\<close>

fun truthy_opt :: "JsPrim option \<Rightarrow> bool" where
  "truthy_opt None = False"
| "truthy_opt (Some v) = truthy v"

record WeightLimitOpt =
  refTime :: "JsPrim option"
  proofSize :: "JsPrim option"

record CreateWeightLimitOpts =
  isLimited :: "bool option"
  weightLimit :: "WeightLimitOpt option"

datatype XcmWeight = Limited WeightLimitOpt | Unlimited

subsection \<open>The builders\<close>

text \<open>
  \<^verbatim>\<open>xcmVersion\<close> is a JavaScript number; the builders only compare it with \<^verbatim>\<open>2\<close>,
  so an integer stands for it.
\<close>

definition createBeneficiary :: "string \<Rightarrow> int \<Rightarrow> XcmDestBenificiary" where
  "createBeneficiary accountId xcmVersion =
     (if xcmVersion = 2 then
        Versioned V2
          \<lparr>parents = 0,
           interior = X1 (AccountId32 \<lparr>network = Some ''Any'', id_account = accountId\<rparr>)\<rparr>
      else
        Versioned V3
          \<lparr>parents = 0,
           interior = X1 (AccountId32 \<lparr>network = None, id_account = accountId\<rparr>)\<rparr>)"

definition createDest :: "string \<Rightarrow> int \<Rightarrow> XcmDestBenificiary" where
  "createDest destId xcmVersion =
     (if xcmVersion = 2 then
        Versioned V2 \<lparr>parents = 0, interior = X1 (Parachain destId)\<rparr>
      else
        Versioned V3 \<lparr>parents = 0, interior = X1 (Parachain destId)\<rparr>)"

text \<open>\<^verbatim>\<open>amounts[0]\<close>: \<^verbatim>\<open>undefined\<close> on an empty array.\<close>

definition first_amount :: "string list \<Rightarrow> string option" where
  "first_amount amounts = (case amounts of [] \<Rightarrow> None | amount # _ \<Rightarrow> Some amount)"

text \<open>
  The promise that \<^verbatim>\<open>createAssets\<close> returns is always resolved, so the model is the
  value it resolves to. \<^verbatim>\<open>multiAssets\<close> starts empty and receives one \<^verbatim>\<open>push\<close>.
\<close>

definition createAssets :: "string list \<Rightarrow> int \<Rightarrow> UnionXcmMultiAssets" where
  "createAssets amounts xcmVersion =
     (let multiAssets = [];
          amount = first_amount amounts;
          multiAsset =
            \<lparr>fun_asset = Fungible amount,
             id_asset = Concrete \<lparr>parents = 0, interior = Here ''''\<rparr>\<rparr>;
          multiAssets = multiAssets @ [multiAsset]
      in if xcmVersion = 2 then Versioned V2 multiAssets else Versioned V3 multiAssets)"

text \<open>\<^verbatim>\<open>opts.weightLimit?.refTime\<close> and \<^verbatim>\<open>opts.weightLimit?.proofSize\<close>.\<close>

definition weightLimit_refTime :: "CreateWeightLimitOpts \<Rightarrow> JsPrim option" where
  "weightLimit_refTime opts = (case weightLimit opts of None \<Rightarrow> None | Some w \<Rightarrow> refTime w)"

definition weightLimit_proofSize :: "CreateWeightLimitOpts \<Rightarrow> JsPrim option" where
  "weightLimit_proofSize opts = (case weightLimit opts of None \<Rightarrow> None | Some w \<Rightarrow> proofSize w)"

definition createWeightLimit :: "CreateWeightLimitOpts \<Rightarrow> XcmWeight" where
  "createWeightLimit opts =
     (if isLimited opts = Some True \<and> truthy_opt (weightLimit_refTime opts)
         \<and> truthy_opt (weightLimit_proofSize opts)
      then Limited \<lparr>refTime = weightLimit_refTime opts, proofSize = weightLimit_proofSize opts\<rparr>
      else Unlimited)"

section \<open>Classification of a local transaction\<close>

text \<open>
  The embedding of \<^verbatim>\<open>checkLocalTxInput\<close>. A \<^verbatim>\<open>throw\<close> and a rejected promise are
  the left summand of the result; the awaited calls run one after the other, so the
  function is modelled as sequential code.
\<close>

subsection \<open>Strings\<close>

text \<open>
  A string is a list of 8-bit characters: the code units U+0000 to U+00FF. On them
  \<^verbatim>\<open>toLowerCase\<close> maps \<^verbatim>\<open>A\<close>..\<^verbatim>\<open>Z\<close> (U+0041 to U+005A) and the capital letters
  U+00C0 to U+00DE, the multiplication sign U+00D7 apart, to the code unit 32 above, and
  leaves every other code unit as it is. The white space that \<^verbatim>\<open>parseInt\<close> skips is,
  in this range, TAB, LF, VT, FF, CR, SP and the no-break space U+00A0.
\<close>

definition toLowerCase_char :: "char \<Rightarrow> char" where
  "toLowerCase_char c =
     (let n = (of_char c :: nat) in
      if (65 \<le> n \<and> n \<le> 90) \<or> (192 \<le> n \<and> n \<le> 222 \<and> n \<noteq> 215)
      then char_of (n + 32) else c)"

definition toLowerCase :: "string \<Rightarrow> string" where
  "toLowerCase s = map toLowerCase_char s"

definition isWhiteSpace :: "char \<Rightarrow> bool" where
  "isWhiteSpace c = (of_char c \<in> {9, 10, 11, 12, 13, 32, 160 :: nat})"

definition isDecDigit :: "char \<Rightarrow> bool" where
  "isDecDigit c = (CHR ''0'' \<le> c \<and> c \<le> CHR ''9'')"

definition isHexDigit :: "char \<Rightarrow> bool" where
  "isHexDigit c =
     (isDecDigit c \<or> (CHR ''a'' \<le> c \<and> c \<le> CHR ''f'') \<or> (CHR ''A'' \<le> c \<and> c \<le> CHR ''F''))"

text \<open>
  \<^verbatim>\<open>Number.isNaN(parseInt(s))\<close>. \<^verbatim>\<open>parseInt\<close> without a radix skips leading white
  space and one sign, takes a prefix \<^verbatim>\<open>0x\<close> or \<^verbatim>\<open>0X\<close> as the switch to radix 16, and
  reads digits up to the first character that is none; it is \<^verbatim>\<open>NaN\<close> exactly when it
  reads no digit.
\<close>

definition stripSign :: "string \<Rightarrow> string" where
  "stripSign s =
     (case s of [] \<Rightarrow> [] | c # r \<Rightarrow> if c = CHR ''+'' \<or> c = CHR ''-'' then r else s)"

definition hasHexPrefix :: "string \<Rightarrow> bool" where
  "hasHexPrefix s =
     (case s of
        c # x # _ \<Rightarrow> c = CHR ''0'' \<and> (x = CHR ''x'' \<or> x = CHR ''X'')
      | _ \<Rightarrow> False)"

definition parseInt_isNaN :: "string \<Rightarrow> bool" where
  "parseInt_isNaN s =
     (let s1 = stripSign (dropWhile isWhiteSpace s) in
      if hasHexPrefix s1 then
        (case drop 2 s1 of [] \<Rightarrow> True | d # _ \<Rightarrow> \<not> isHexDigit d)
      else
        (case s1 of [] \<Rightarrow> True | d # _ \<Rightarrow> \<not> isDecDigit d))"

subsection \<open>Data and collaborators\<close>

datatype LocalTxType = Assets | Balances | ForeignAssets | PoolAssets

text \<open>
  Modelled from the spec: \<^verbatim>\<open>BaseErrorsEnum\<close> is declared in \<^verbatim>\<open>./BaseError\<close>, which
  is not among the sources; its members are the spec's closed set of error kinds.
\<close>

datatype BaseErrorsEnum =
  InvalidInput | AssetNotFound | UnknownChain | UnsupportedRoute | LiquidTokenInvalid

text \<open>
  What the function can throw: a \<^verbatim>\<open>BaseError\<close> with its message and kind, or the
  \<^verbatim>\<open>TypeError\<close> of reading a property of \<^verbatim>\<open>undefined\<close>.
\<close>

datatype error = BaseError string BaseErrorsEnum | TypeError string

text \<open>
  Modelled from the spec: \<^verbatim>\<open>Registry\<close> is declared in \<^verbatim>\<open>../registry\<close>, which is not
  among the sources. The record of one chain has the two fields that
  \<^verbatim>\<open>checkLocalTxInput\<close> reads: the native token symbols, and \<^verbatim>\<open>assetsInfo\<close>, an
  object from asset id to symbol, kept as the list of its entries in the order of
  \<^verbatim>\<open>Object.keys\<close>. The registry maps a chain id to the record of the chain;
  \<open>None\<close> is the \<^verbatim>\<open>undefined\<close> that an unknown chain id reads.
\<close>

record ChainInfo =
  tokens :: "string list"
  assetsInfo :: "(string \<times> string) list"

record Registry =
  currentRelayRegistry :: "string \<Rightarrow> ChainInfo option"

type_synonym AssetDetails = string

text \<open>\<^verbatim>\<open>api.query.assets.asset(assetId)\<close>: an \<^verbatim>\<open>Option\<close>, \<open>None\<close> when \<^verbatim>\<open>isNone\<close>.\<close>

record ApiPromise =
  query_assets_asset :: "string \<Rightarrow> error + AssetDetails option"

text \<open>
  The functions that \<^verbatim>\<open>checkLocalTxInput\<close> imports from modules that are not among the
  sources are parameters of the model. Each may throw, or reject the promise it
  returns.
\<close>

record Collaborators =
  foreignAssetMultiLocationIsInRegistry :: "ApiPromise \<Rightarrow> string \<Rightarrow> Registry \<Rightarrow> error + bool"
  foreignAssetsMultiLocationExists :: "ApiPromise \<Rightarrow> string \<Rightarrow> error + bool"
  getAssetHubAssetId :: "ApiPromise \<Rightarrow> string \<Rightarrow> string \<Rightarrow> bool \<Rightarrow> error + string"
  getChainIdBySpecName :: "Registry \<Rightarrow> string \<Rightarrow> error + string"
  checkLiquidTokenValidity :: "ApiPromise \<Rightarrow> ChainInfo option \<Rightarrow> string option \<Rightarrow> error + unit"

text \<open>
  The log of a run: every call of a collaborator, every query of the live chain and every
  search of a registry table, in program order. It is what makes "before", "first" and
  "without any live query" statements about the code.
\<close>

datatype Call =
    ForeignAssetMultiLocationIsInRegistry string
  | ForeignAssetsMultiLocationExists string
  | GetChainIdBySpecName string
  | CheckLiquidTokenValidity "ChainInfo option" "string option"
  | TokensFind string
  | GetAssetHubAssetId string string bool
  | AssetsInfoFind string
  | QueryAssetsAsset string

text \<open>The truthiness of what \<^verbatim>\<open>Array.prototype.find\<close> returns on strings.\<close>

fun truthy_found :: "string option \<Rightarrow> bool" where
  "truthy_found None = False"
| "truthy_found (Some s) = (s \<noteq> [])"

subsection \<open>The function\<close>

text \<open>The two fixed messages of the \<^verbatim>\<open>InvalidInput\<close> errors.\<close>

definition lengths_message :: string where
  "lengths_message =
     ''Local transactions must have the `assetIds` input be a length of 1 or 0, and the `amounts` input be a length of 1''"

definition foreign_length_message :: string where
  "foreign_length_message =
     ''Local foreignAsset transactions must have the `assetIds` input be a length of 1''"

text \<open>
  The result is the log of the run and what the promise settles to. \<^verbatim>\<open>assetIds[0]\<close> on
  the empty array is \<^verbatim>\<open>undefined\<close> (\<open>None\<close>), and \<^verbatim>\<open>relayChainInfo[systemChainId]\<close> is
  \<^verbatim>\<open>undefined\<close> for a chain id that the registry does not have; reading \<^verbatim>\<open>tokens\<close>
  of it throws.
\<close>

definition checkLocalTxInput ::
  "Collaborators \<Rightarrow> ApiPromise \<Rightarrow> string list \<Rightarrow> string list \<Rightarrow> string \<Rightarrow> Registry \<Rightarrow> bool \<Rightarrow> bool
     \<Rightarrow> Call list \<times> (error + LocalTxType)" where
  "checkLocalTxInput imports api assetIds amounts specName registry
       isForeignAssetsTransfer isLiquidTokenTransfer =
     (if length assetIds > 1 \<or> length amounts \<noteq> 1 then
        ([], Inl (BaseError lengths_message InvalidInput))
      else if isForeignAssetsTransfer then
        (case assetIds of
           [] \<Rightarrow>
             ([], Inl (BaseError foreign_length_message InvalidInput))
         | multiLocationStr # _ \<Rightarrow>
             (let log1 = [ForeignAssetMultiLocationIsInRegistry multiLocationStr] in
              case foreignAssetMultiLocationIsInRegistry imports api multiLocationStr registry of
                Inl e \<Rightarrow> (log1, Inl e)
              | Inr foreignAssetIsInRegistry \<Rightarrow>
                  if foreignAssetIsInRegistry then (log1, Inr ForeignAssets)
                  else
                    (let log2 = log1 @ [ForeignAssetsMultiLocationExists multiLocationStr] in
                     case foreignAssetsMultiLocationExists imports api multiLocationStr of
                       Inl e \<Rightarrow> (log2, Inl e)
                     | Inr isValidForeignAsset \<Rightarrow>
                         if isValidForeignAsset then (log2, Inr ForeignAssets)
                         else
                           (log2, Inl (BaseError
                              (''MultiLocation '' @ multiLocationStr @ '' not found'')
                              AssetNotFound)))))
      else if isLiquidTokenTransfer then
        (let relayChainInfo = currentRelayRegistry registry;
             log1 = [GetChainIdBySpecName specName] in
         case getChainIdBySpecName imports registry specName of
           Inl e \<Rightarrow> (log1, Inl e)
         | Inr systemChainId \<Rightarrow>
             (let systemParachainInfo = relayChainInfo systemChainId;
                  assetId0 = (case assetIds of [] \<Rightarrow> None | a # _ \<Rightarrow> Some a);
                  log2 = log1 @ [CheckLiquidTokenValidity systemParachainInfo assetId0] in
              case checkLiquidTokenValidity imports api systemParachainInfo assetId0 of
                Inl e \<Rightarrow> (log2, Inl e)
              | Inr _ \<Rightarrow> (log2, Inr PoolAssets)))
      else
        (let relayChainInfo = currentRelayRegistry registry;
             log1 = [GetChainIdBySpecName specName] in
         case getChainIdBySpecName imports registry specName of
           Inl e \<Rightarrow> (log1, Inl e)
         | Inr systemChainId \<Rightarrow>
             (let systemParachainInfo = relayChainInfo systemChainId in
              case assetIds of
                [] \<Rightarrow> (log1, Inr Balances)
              | assetId # _ \<Rightarrow>
                  (case systemParachainInfo of
                     None \<Rightarrow>
                       (log1, Inl (TypeError ''Cannot read properties of undefined (reading 'tokens')''))
                   | Some info \<Rightarrow>
                       (let log2 = log1 @ [TokensFind assetId];
                            isNativeToken =
                              find (\<lambda>token. toLowerCase token = toLowerCase assetId) (tokens info) in
                        if isNativeToken \<noteq> None then (log2, Inr Balances)
                        else
                          (let isNotANumber = parseInt_isNaN assetId;
                               log3 =
                                 (if isNotANumber
                                  then log2 @ [GetAssetHubAssetId assetId specName isForeignAssetsTransfer]
                                  else log2) in
                           case (if isNotANumber
                                 then getAssetHubAssetId imports api assetId specName isForeignAssetsTransfer
                                 else Inr assetId) of
                             Inl e \<Rightarrow> (log3, Inl e)
                           | Inr assetId' \<Rightarrow>
                               (let log4 = log3 @ [AssetsInfoFind assetId'];
                                    isAssetAvailableInRegistry =
                                      find (\<lambda>asset. toLowerCase asset = toLowerCase assetId')
                                        (map fst (assetsInfo info)) in
                                if truthy_found isAssetAvailableInRegistry then (log4, Inr Assets)
                                else if \<not> isNotANumber then
                                  (let log5 = log4 @ [QueryAssetsAsset assetId'] in
                                   case query_assets_asset api assetId' of
                                     Inl e \<Rightarrow> (log5, Inl e)
                                   | Inr asset \<Rightarrow>
                                       if asset = None then
                                         (log5, Inl (BaseError
                                            (''The integer assetId '' @ assetId' @ '' was not found.'')
                                            AssetNotFound))
                                       else (log5, Inr Assets))
                                else (log4, Inr Assets))))))))"

subsection \<open>The symbol resolver\<close>






section \<open>Comparing two locations\<close>

text \<open>
  The location with the \<^verbatim>\<open>network\<close> key of its \<open>AccountId32\<close> junction removed; a
  location without such a junction is left as it is. It states that two locations differ
  at that key and nowhere else.
\<close>

definition omit_network :: "MultiLocation \<Rightarrow> MultiLocation" where
  "omit_network l =
     (case interior l of
        X1 (AccountId32 a) \<Rightarrow> l\<lparr>interior := X1 (AccountId32 (a\<lparr>network := None\<rparr>))\<rparr>
      | _ \<Rightarrow> l)"

section \<open>Concrete configurations\<close>

text \<open>
  Three option records for \<open>createWeightLimit\<close>; a registry with one system parachain,
  a chain that has the single asset \<^verbatim>\<open>1337\<close>, and collaborators with fixed answers.
  The theorems below are evaluated on them.
\<close>

definition only_refTime :: CreateWeightLimitOpts where
  "only_refTime =
     \<lparr>isLimited = Some True,
      weightLimit = Some \<lparr>refTime = Some (JsNumber 100), proofSize = None\<rparr>\<rparr>"

definition both_components :: CreateWeightLimitOpts where
  "both_components =
     \<lparr>isLimited = Some True,
      weightLimit = Some \<lparr>refTime = Some (JsNumber 100), proofSize = Some (JsNumber 200)\<rparr>\<rparr>"

definition zero_refTime :: CreateWeightLimitOpts where
  "zero_refTime =
     \<lparr>isLimited = Some True,
      weightLimit = Some \<lparr>refTime = Some (JsNumber 0), proofSize = Some (JsNumber 200)\<rparr>\<rparr>"

definition asset_hub_kusama :: ChainInfo where
  "asset_hub_kusama =
     \<lparr>tokens = [''KSM''], assetsInfo = [(''8'', ''RMRK''), (''1984'', ''USDt'')]\<rparr>"

definition example_registry :: Registry where
  "example_registry = \<lparr>currentRelayRegistry = [''1000'' \<mapsto> asset_hub_kusama]\<rparr>"

definition example_api :: ApiPromise where
  "example_api =
     \<lparr>query_assets_asset =
        (\<lambda>assetId. Inr (if assetId = ''1337'' then Some ''asset details'' else None))\<rparr>"

definition example_imports :: Collaborators where
  "example_imports =
     \<lparr>foreignAssetMultiLocationIsInRegistry =
        (\<lambda>api multiLocationStr registry. Inr (multiLocationStr = ''in registry'')),
      foreignAssetsMultiLocationExists =
        (\<lambda>api multiLocationStr. Inr (multiLocationStr = ''on chain'')),
      getAssetHubAssetId =
        (\<lambda>api assetId specName isForeignAssetsTransfer.
           if toLowerCase assetId = ''usdt'' then Inr ''1984''
           else Inl (BaseError ''unknown symbol'' AssetNotFound)),
      getChainIdBySpecName =
        (\<lambda>registry specName. Inr (if specName = ''asset-hub-kusama'' then ''1000'' else [])),
      checkLiquidTokenValidity =
        (\<lambda>api systemParachainInfo assetId.
           if assetId = Some ''0'' then Inr ()
           else Inl (BaseError ''not a liquid token'' LiquidTokenInvalid))\<rparr>"

text \<open>A chain whose native token is the one letter U+00C9, a capital outside ASCII.\<close>

definition latin1_chain :: ChainInfo where
  "latin1_chain = \<lparr>tokens = [[char_of (201 :: nat)]], assetsInfo = []\<rparr>"

definition latin1_registry :: Registry where
  "latin1_registry = \<lparr>currentRelayRegistry = [''1000'' \<mapsto> latin1_chain]\<rparr>"

section \<open>Properties of the builders\<close>

text \<open>
  C2, as the code has it: whatever the list of amounts and the version, the asset list
  that \<open>createAssets\<close> returns has exactly one fungible asset, carrying \<^verbatim>\<open>amounts[0]\<close>
  (\<^verbatim>\<open>undefined\<close> when the list is empty), at the concrete location \<^verbatim>\<open>Here\<close> with
  parents 0. Its length is the length of \<open>amounts\<close> only when \<open>amounts\<close> has one element.
\<close>

theorem createAssets_single_here:
  "payload (createAssets amounts xcmVersion) =
     [\<lparr>fun_asset = Fungible (first_amount amounts),
       id_asset = Concrete \<lparr>parents = 0, interior = Here ''''\<rparr>\<rparr>]
   \<and> (length (payload (createAssets amounts xcmVersion)) = length amounts)
       = (length amounts = 1)"
  by (auto simp add: createAssets_def Let_def)

theorem createAssets_single_here_witness:
  "payload (createAssets [''1000'', ''2000''] 3) =
     [\<lparr>fun_asset = Fungible (Some ''1000''),
       id_asset = Concrete \<lparr>parents = 0, interior = Here ''''\<rparr>\<rparr>]"
  using createAssets_single_here [of "[''1000'', ''2000'']" 3]
  by (simp add: first_amount_def)

text \<open>
  C2, as it is stated, fails: two amounts give a list of one asset, not of two.
\<close>

theorem createAssets_length_counterexample:
  "length (payload (createAssets [''1000'', ''2000''] 3)) \<noteq> length [''1000'', ''2000'']"
  by (simp add: createAssets_def Let_def)

text \<open>
  C3, as the code has it: the three builders tag their output \<open>V2\<close> for version 2 and
  \<open>V3\<close> for every other version number, so version 3 gets the tag it asks for, version
  4 gets \<open>V3\<close>, and no output is tagged \<open>V4\<close>.
\<close>

theorem builders_version_tag:
  "version (createBeneficiary accountId xcmVersion) = (if xcmVersion = 2 then V2 else V3)
   \<and> version (createDest destId xcmVersion) = (if xcmVersion = 2 then V2 else V3)
   \<and> version (createAssets amounts xcmVersion) = (if xcmVersion = 2 then V2 else V3)"
  by (simp add: createBeneficiary_def createDest_def createAssets_def)

theorem builders_version_tag_witness:
  "version (createBeneficiary ''5F'' 2) = V2 \<and> version (createDest ''1000'' 3) = V3
   \<and> version (createAssets [''1000''] 4) = V3"
  using builders_version_tag [of "''5F''" 2] builders_version_tag [of _ 3 "''1000''"]
    builders_version_tag [of _ 4 _ "[''1000'']"]
  by simp

text \<open>
  C3, as it is stated, fails at version 4: the beneficiary is not tagged \<open>V4\<close>.
\<close>

theorem builders_version_4_counterexample:
  "version (createBeneficiary ''5F'' 4) \<noteq> V4"
  by (simp add: createBeneficiary_def)

text \<open>
  C4: for every account, the beneficiary of version 2 is the \<open>V2\<close> location whose
  \<open>X1\<close> junction is an \<open>AccountId32\<close> with the network \<^verbatim>\<open>Any\<close>, the beneficiary of
  version 3 is the \<open>V3\<close> location whose \<open>AccountId32\<close> has no network key, and the two
  locations differ at that key only: without it, the first is the second.
\<close>

theorem createBeneficiary_network_field:
  "createBeneficiary accountId 2 =
     Versioned V2
       \<lparr>parents = 0,
        interior = X1 (AccountId32 \<lparr>network = Some ''Any'', id_account = accountId\<rparr>)\<rparr>
   \<and> createBeneficiary accountId 3 =
     Versioned V3
       \<lparr>parents = 0,
        interior = X1 (AccountId32 \<lparr>network = None, id_account = accountId\<rparr>)\<rparr>
   \<and> payload (createBeneficiary accountId 2) \<noteq> payload (createBeneficiary accountId 3)
   \<and> omit_network (payload (createBeneficiary accountId 2))
       = payload (createBeneficiary accountId 3)"
  by (simp add: createBeneficiary_def omit_network_def)

theorem createBeneficiary_network_field_witness:
  "omit_network (payload (createBeneficiary ''5F'' 2)) = payload (createBeneficiary ''5F'' 3)"
  using createBeneficiary_network_field [of "''5F''"] by blast

text \<open>
  C5, as the code has it: \<open>createWeightLimit\<close> returns \<open>Limited\<close> with both components
  exactly when \<open>isLimited\<close> is true and both components are supplied and truthy (a
  number other than 0, a string other than the empty one), and \<open>Unlimited\<close> in every
  other case; in particular a missing component gives \<open>Unlimited\<close>. The function has no
  error result.
\<close>

theorem createWeightLimit_limited_iff:
  "(createWeightLimit opts = Limited \<lparr>refTime = Some r, proofSize = Some p\<rparr>)
     = (isLimited opts = Some True
        \<and> weightLimit_refTime opts = Some r \<and> truthy r
        \<and> weightLimit_proofSize opts = Some p \<and> truthy p)
   \<and> (createWeightLimit opts = Unlimited)
     = (\<not> (isLimited opts = Some True
           \<and> truthy_opt (weightLimit_refTime opts)
           \<and> truthy_opt (weightLimit_proofSize opts)))
   \<and> (weightLimit_refTime opts = None \<or> weightLimit_proofSize opts = None
        \<longrightarrow> createWeightLimit opts = Unlimited)"
  by (auto simp add: createWeightLimit_def)

theorem createWeightLimit_limited_iff_witness:
  "createWeightLimit only_refTime = Unlimited
   \<and> createWeightLimit both_components
       = Limited \<lparr>refTime = Some (JsNumber 100), proofSize = Some (JsNumber 200)\<rparr>"
proof -
  have missing: "weightLimit_refTime only_refTime = None \<or> weightLimit_proofSize only_refTime = None"
    by (simp add: only_refTime_def weightLimit_proofSize_def)
  have supplied:
    "isLimited both_components = Some True
     \<and> weightLimit_refTime both_components = Some (JsNumber 100) \<and> truthy (JsNumber 100)
     \<and> weightLimit_proofSize both_components = Some (JsNumber 200) \<and> truthy (JsNumber 200)"
    by (simp add: both_components_def weightLimit_refTime_def weightLimit_proofSize_def)
  show ?thesis
    using createWeightLimit_limited_iff [of only_refTime]
      createWeightLimit_limited_iff [of both_components "JsNumber 100" "JsNumber 200"]
      missing supplied
    by blast
qed

text \<open>
  C5, as it is stated, fails: with \<open>isLimited\<close> true, \<open>refTime\<close> supplied as 0 and
  \<open>proofSize\<close> supplied as 200, the result is \<open>Unlimited\<close>.
\<close>

theorem createWeightLimit_zero_counterexample:
  "isLimited zero_refTime = Some True
   \<and> weightLimit_refTime zero_refTime = Some (JsNumber 0)
   \<and> weightLimit_proofSize zero_refTime = Some (JsNumber 200)
   \<and> createWeightLimit zero_refTime = Unlimited"
  by (simp add: zero_refTime_def createWeightLimit_def weightLimit_refTime_def
      weightLimit_proofSize_def)

text \<open>
  C6: for every version number, the beneficiary, the destination and the asset list
  built for it carry one and the same version tag.
\<close>

theorem builders_same_version:
  "version (createBeneficiary accountId xcmVersion) = version (createDest destId xcmVersion)
   \<and> version (createDest destId xcmVersion) = version (createAssets amounts xcmVersion)"
  by (simp add: createBeneficiary_def createDest_def createAssets_def)

theorem builders_same_version_witness:
  "version (createBeneficiary ''5F'' 2) = version (createDest ''1000'' 2)
   \<and> version (createDest ''1000'' 2) = version (createAssets [''1000''] 2)"
  using builders_same_version [of "''5F''" 2 "''1000''" "[''1000'']"] by simp

section \<open>Properties of the classification\<close>

text \<open>
  The two built-ins outside ASCII: U+00C9 is folded to U+00E9, the multiplication sign
  U+00D7 is left alone, and a leading no-break space does not stop \<^verbatim>\<open>parseInt\<close>.
\<close>

lemma toLowerCase_latin1:
  "toLowerCase [char_of (201 :: nat)] = [char_of (233 :: nat)]
   \<and> toLowerCase [char_of (215 :: nat)] = [char_of (215 :: nat)]
   \<and> toLowerCase ''Ksm'' = ''ksm''"
  by code_simp

lemma parseInt_isNaN_no_break_space:
  "\<not> parseInt_isNaN [char_of (160 :: nat), CHR ''1'', CHR ''2'']"
  by code_simp

text \<open>
  C7: every call with more than one asset id, or with a number of amounts other than
  one, fails with \<open>InvalidInput\<close>, whatever the other arguments are, and the log of the
  run is empty: no collaborator was called, no table searched, no chain queried.
\<close>

theorem checkLocalTxInput_lengths:
  assumes "length assetIds > 1 \<or> length amounts \<noteq> 1"
  shows "checkLocalTxInput imports api assetIds amounts specName registry
           isForeignAssetsTransfer isLiquidTokenTransfer =
         ([], Inl (BaseError lengths_message InvalidInput))"
  using assms unfolding checkLocalTxInput_def by simp

theorem checkLocalTxInput_lengths_witness:
  "checkLocalTxInput example_imports example_api [''8'', ''1984''] [''100'']
       ''asset-hub-kusama'' example_registry False False =
     ([], Inl (BaseError lengths_message InvalidInput))
   \<and> checkLocalTxInput example_imports example_api [''in registry''] []
       ''asset-hub-kusama'' example_registry True True =
     ([], Inl (BaseError lengths_message InvalidInput))"
proof
  show "checkLocalTxInput example_imports example_api [''8'', ''1984''] [''100'']
       ''asset-hub-kusama'' example_registry False False =
     ([], Inl (BaseError lengths_message InvalidInput))"
    by (rule checkLocalTxInput_lengths) simp
  show "checkLocalTxInput example_imports example_api [''in registry''] []
       ''asset-hub-kusama'' example_registry True True =
     ([], Inl (BaseError lengths_message InvalidInput))"
    by (rule checkLocalTxInput_lengths) simp
qed

text \<open>
  C8: a foreign-asset call with one asset id and one amount first asks whether the
  multi-location is in the registry. If it is, the result is \<open>ForeignAssets\<close> and the
  log holds that lookup alone. If it is not, the live chain is asked next: the result
  is \<open>ForeignAssets\<close> when the chain has the multi-location, and the error
  \<open>AssetNotFound\<close> when it has not.
\<close>

theorem checkLocalTxInput_foreign:
  assumes "length amounts = 1"
  shows "(foreignAssetMultiLocationIsInRegistry imports api multiLocationStr registry = Inr True \<longrightarrow>
            checkLocalTxInput imports api [multiLocationStr] amounts specName registry True
                isLiquidTokenTransfer =
              ([ForeignAssetMultiLocationIsInRegistry multiLocationStr], Inr ForeignAssets))
       \<and> (foreignAssetMultiLocationIsInRegistry imports api multiLocationStr registry = Inr False \<longrightarrow>
            (foreignAssetsMultiLocationExists imports api multiLocationStr = Inr True \<longrightarrow>
               checkLocalTxInput imports api [multiLocationStr] amounts specName registry True
                   isLiquidTokenTransfer =
                 ([ForeignAssetMultiLocationIsInRegistry multiLocationStr,
                   ForeignAssetsMultiLocationExists multiLocationStr], Inr ForeignAssets))
          \<and> (foreignAssetsMultiLocationExists imports api multiLocationStr = Inr False \<longrightarrow>
               checkLocalTxInput imports api [multiLocationStr] amounts specName registry True
                   isLiquidTokenTransfer =
                 ([ForeignAssetMultiLocationIsInRegistry multiLocationStr,
                   ForeignAssetsMultiLocationExists multiLocationStr],
                  Inl (BaseError (''MultiLocation '' @ multiLocationStr @ '' not found'')
                     AssetNotFound))))"
  using assms unfolding checkLocalTxInput_def by simp

theorem checkLocalTxInput_foreign_witness:
  "checkLocalTxInput example_imports example_api [''in registry''] [''100'']
       ''asset-hub-kusama'' example_registry True False =
     ([ForeignAssetMultiLocationIsInRegistry ''in registry''], Inr ForeignAssets)
   \<and> checkLocalTxInput example_imports example_api [''on chain''] [''100'']
       ''asset-hub-kusama'' example_registry True False =
     ([ForeignAssetMultiLocationIsInRegistry ''on chain'',
       ForeignAssetsMultiLocationExists ''on chain''], Inr ForeignAssets)
   \<and> checkLocalTxInput example_imports example_api [''nowhere''] [''100'']
       ''asset-hub-kusama'' example_registry True False =
     ([ForeignAssetMultiLocationIsInRegistry ''nowhere'',
       ForeignAssetsMultiLocationExists ''nowhere''],
      Inl (BaseError ''MultiLocation nowhere not found'' AssetNotFound))"
proof -
  have one: "length [''100''] = 1"
    by simp
  have r1: "foreignAssetMultiLocationIsInRegistry example_imports example_api ''in registry''
      example_registry = Inr True"
    by (simp add: example_imports_def)
  have r2: "foreignAssetMultiLocationIsInRegistry example_imports example_api ''on chain''
      example_registry = Inr False"
    by (simp add: example_imports_def)
  have r3: "foreignAssetMultiLocationIsInRegistry example_imports example_api ''nowhere''
      example_registry = Inr False"
    by (simp add: example_imports_def)
  have c2: "foreignAssetsMultiLocationExists example_imports example_api ''on chain'' = Inr True"
    by (simp add: example_imports_def)
  have c3: "foreignAssetsMultiLocationExists example_imports example_api ''nowhere'' = Inr False"
    by (simp add: example_imports_def)
  show ?thesis
    using checkLocalTxInput_foreign [OF one, of example_imports example_api "''in registry''"
        example_registry "''asset-hub-kusama''" False]
      checkLocalTxInput_foreign [OF one, of example_imports example_api "''on chain''"
        example_registry "''asset-hub-kusama''" False]
      checkLocalTxInput_foreign [OF one, of example_imports example_api "''nowhere''"
        example_registry "''asset-hub-kusama''" False]
      r1 r2 r3 c2 c3
    by simp
qed

text \<open>
  C9: a call that is neither foreign nor liquid, with one asset id that is, up to the
  case of its letters, a native token of the chain, returns \<open>Balances\<close>. The log ends
  with the search of the native tokens: the assets table is not searched, the symbol is
  not resolved and the chain is not queried.
\<close>

theorem checkLocalTxInput_native_token:
  assumes chain: "getChainIdBySpecName imports registry specName = Inr systemChainId"
    and info: "currentRelayRegistry registry systemChainId = Some info"
    and native: "\<exists>token \<in> set (tokens info). toLowerCase token = toLowerCase assetId"
  shows "checkLocalTxInput imports api [assetId] [amount] specName registry False False =
           ([GetChainIdBySpecName specName, TokensFind assetId], Inr Balances)"
proof -
  have found: "find (\<lambda>token. toLowerCase token = toLowerCase assetId) (tokens info) \<noteq> None"
    using native by (auto simp add: find_None_iff)
  show ?thesis
    unfolding checkLocalTxInput_def
    using found by (simp add: chain info)
qed

theorem checkLocalTxInput_native_token_witness:
  "checkLocalTxInput example_imports example_api [''ksm''] [''100'']
       ''asset-hub-kusama'' example_registry False False =
     ([GetChainIdBySpecName ''asset-hub-kusama'', TokensFind ''ksm''], Inr Balances)
   \<and> checkLocalTxInput example_imports example_api [[char_of (233 :: nat)]] [''100'']
       ''asset-hub-kusama'' latin1_registry False False =
     ([GetChainIdBySpecName ''asset-hub-kusama'', TokensFind [char_of (233 :: nat)]],
      Inr Balances)"
proof
  have chain: "getChainIdBySpecName example_imports example_registry ''asset-hub-kusama''
      = Inr ''1000''"
    by (simp add: example_imports_def)
  have info: "currentRelayRegistry example_registry ''1000'' = Some asset_hub_kusama"
    by (simp add: example_registry_def)
  have native: "\<exists>token \<in> set (tokens asset_hub_kusama). toLowerCase token = toLowerCase ''ksm''"
    by code_simp
  show "checkLocalTxInput example_imports example_api [''ksm''] [''100'']
       ''asset-hub-kusama'' example_registry False False =
     ([GetChainIdBySpecName ''asset-hub-kusama'', TokensFind ''ksm''], Inr Balances)"
    by (rule checkLocalTxInput_native_token [OF chain info native])
next
  have chain: "getChainIdBySpecName example_imports latin1_registry ''asset-hub-kusama''
      = Inr ''1000''"
    by (simp add: example_imports_def)
  have info: "currentRelayRegistry latin1_registry ''1000'' = Some latin1_chain"
    by (simp add: latin1_registry_def)
  have native:
    "\<exists>token \<in> set (tokens latin1_chain). toLowerCase token = toLowerCase [char_of (233 :: nat)]"
    by code_simp
  show "checkLocalTxInput example_imports example_api [[char_of (233 :: nat)]] [''100'']
       ''asset-hub-kusama'' latin1_registry False False =
     ([GetChainIdBySpecName ''asset-hub-kusama'', TokensFind [char_of (233 :: nat)]],
      Inr Balances)"
    by (rule checkLocalTxInput_native_token [OF chain info native])
qed

text \<open>
  C10: a liquid-token call with no asset id and one amount passes the length check and
  enters the liquid-token branch: the chain id is looked up and, once it is there, the
  validity check is called with the chain's record and with \<^verbatim>\<open>undefined\<close> for the
  asset id, and its outcome decides the result. The same empty list of asset ids is
  rejected with \<open>InvalidInput\<close> on the foreign-assets path.
\<close>

theorem checkLocalTxInput_liquid_no_assetId:
  "take 1 (fst (checkLocalTxInput imports api [] [amount] specName registry False True))
     = [GetChainIdBySpecName specName]
   \<and> (getChainIdBySpecName imports registry specName = Inr systemChainId \<longrightarrow>
        checkLocalTxInput imports api [] [amount] specName registry False True =
          ([GetChainIdBySpecName specName,
            CheckLiquidTokenValidity (currentRelayRegistry registry systemChainId) None],
           (case checkLiquidTokenValidity imports api
                   (currentRelayRegistry registry systemChainId) None of
              Inl e \<Rightarrow> Inl e
            | Inr _ \<Rightarrow> Inr PoolAssets)))
   \<and> checkLocalTxInput imports api [] [amount] specName registry True isLiquidTokenTransfer =
       ([], Inl (BaseError foreign_length_message InvalidInput))"
  unfolding checkLocalTxInput_def by (simp add: Let_def split: sum.splits)

theorem checkLocalTxInput_liquid_no_assetId_witness:
  "checkLocalTxInput example_imports example_api [] [''100''] ''asset-hub-kusama''
       example_registry False True =
     ([GetChainIdBySpecName ''asset-hub-kusama'',
       CheckLiquidTokenValidity (Some asset_hub_kusama) None],
      Inl (BaseError ''not a liquid token'' LiquidTokenInvalid))"
proof -
  have chain: "getChainIdBySpecName example_imports example_registry ''asset-hub-kusama''
      = Inr ''1000''"
    by (simp add: example_imports_def)
  have info: "currentRelayRegistry example_registry ''1000'' = Some asset_hub_kusama"
    by (simp add: example_registry_def)
  have check: "checkLiquidTokenValidity example_imports example_api (Some asset_hub_kusama) None
      = Inl (BaseError ''not a liquid token'' LiquidTokenInvalid)"
    by (simp add: example_imports_def)
  show ?thesis
    using checkLocalTxInput_liquid_no_assetId [of example_imports example_api "''100''"
        "''asset-hub-kusama''" example_registry "''1000''"]
      chain info check
    by simp
qed



end
